theory Spec2Isabelle
  imports Complex_Main "HOL-Library.Word"
begin

unbundle bit_operations_syntax

section \<open>Permission model (package permissions)\<close>

text \<open>
  Go's \<open>int\<close> is 64 bits wide on the platforms the package compiles for (the variable
  initialiser \<open>0xFFFFFFFF\<close> does not fit a 32-bit \<open>int\<close>), so a permission mask is a
  64-bit word; \<open>-1\<close> is the word with all 64 bits set.
\<close>

type_synonym go_int = "64 word"

definition PermissionViewReports :: go_int where "PermissionViewReports = push_bit 0 1"
definition PermissionAddReports :: go_int where "PermissionAddReports = push_bit 1 1"
definition PermissionEditReports :: go_int where "PermissionEditReports = push_bit 2 1"
definition PermissionDeleteReports :: go_int where "PermissionDeleteReports = push_bit 3 1"
definition PermissionViewTaxis :: go_int where "PermissionViewTaxis = push_bit 4 1"
definition PermissionAddTaxis :: go_int where "PermissionAddTaxis = push_bit 5 1"
definition PermissionEditTaxis :: go_int where "PermissionEditTaxis = push_bit 6 1"
definition PermissionDeleteTaxis :: go_int where "PermissionDeleteTaxis = push_bit 7 1"
definition PermissionViewExpenses :: go_int where "PermissionViewExpenses = push_bit 8 1"
definition PermissionAddExpenses :: go_int where "PermissionAddExpenses = push_bit 9 1"
definition PermissionEditExpenses :: go_int where "PermissionEditExpenses = push_bit 10 1"
definition PermissionDeleteExpenses :: go_int where "PermissionDeleteExpenses = push_bit 11 1"
definition PermissionViewDeposits :: go_int where "PermissionViewDeposits = push_bit 12 1"
definition PermissionAddDeposits :: go_int where "PermissionAddDeposits = push_bit 13 1"
definition PermissionEditDeposits :: go_int where "PermissionEditDeposits = push_bit 14 1"
definition PermissionDeleteDeposits :: go_int where "PermissionDeleteDeposits = push_bit 15 1"
definition PermissionViewUsers :: go_int where "PermissionViewUsers = push_bit 16 1"
definition PermissionAddUsers :: go_int where "PermissionAddUsers = push_bit 17 1"
definition PermissionEditUsers :: go_int where "PermissionEditUsers = push_bit 18 1"
definition PermissionDeleteUsers :: go_int where "PermissionDeleteUsers = push_bit 19 1"
definition PermissionManageTenants :: go_int where "PermissionManageTenants = push_bit 20 1"

lemmas permission_bit_defs =
  PermissionViewReports_def PermissionAddReports_def PermissionEditReports_def
  PermissionDeleteReports_def PermissionViewTaxis_def PermissionAddTaxis_def
  PermissionEditTaxis_def PermissionDeleteTaxis_def PermissionViewExpenses_def
  PermissionAddExpenses_def PermissionEditExpenses_def PermissionDeleteExpenses_def
  PermissionViewDeposits_def PermissionAddDeposits_def PermissionEditDeposits_def
  PermissionDeleteDeposits_def PermissionViewUsers_def PermissionAddUsers_def
  PermissionEditUsers_def PermissionDeleteUsers_def PermissionManageTenants_def

text \<open>
  The five role masks are package-level variables, overwritten once at start-up by
  \<open>SetPermissionMasks\<close>. They are the record \<open>masks\<close>, passed to every function
  that reads them.
\<close>

record masks =
  PermissionAdmin :: go_int
  PermissionOwner :: go_int
  PermissionManager :: go_int
  PermissionMechanic :: go_int
  PermissionDriver :: go_int

text \<open>The initialisers of the package variables.\<close>

definition initial_masks :: masks where
  "initial_masks =
     \<lparr> PermissionAdmin = 0xFFFFFFFF,
       PermissionOwner =
         PermissionViewReports OR PermissionAddReports OR PermissionEditReports OR PermissionDeleteReports OR
         PermissionViewTaxis OR PermissionAddTaxis OR PermissionEditTaxis OR PermissionDeleteTaxis OR
         PermissionViewExpenses OR PermissionAddExpenses OR PermissionEditExpenses OR PermissionDeleteExpenses OR
         PermissionViewDeposits OR PermissionAddDeposits OR PermissionEditDeposits OR PermissionDeleteDeposits,
       PermissionManager =
         PermissionViewReports OR PermissionAddReports OR PermissionEditReports OR
         PermissionViewDeposits OR PermissionAddDeposits OR PermissionEditDeposits OR
         PermissionViewTaxis,
       PermissionMechanic = PermissionViewTaxis OR PermissionViewReports,
       PermissionDriver = PermissionViewReports OR PermissionAddReports \<rparr>"

definition SetPermissionMasks :: "go_int \<Rightarrow> go_int \<Rightarrow> go_int \<Rightarrow> go_int \<Rightarrow> go_int \<Rightarrow> masks" where
  "SetPermissionMasks admin owner manager mechanic driver =
     \<lparr> PermissionAdmin = admin, PermissionOwner = owner, PermissionManager = manager,
       PermissionMechanic = mechanic, PermissionDriver = driver \<rparr>"

text \<open>
  What \<open>main\<close> installs when no environment variable overrides a mask: the defaults of
  \<open>config.Load\<close>.
\<close>

definition configured_masks :: masks where
  "configured_masks = SetPermissionMasks 0xFFFFFFFF 0xFFFFF 0x3 0x70 0x3"

definition HasPermission :: "masks \<Rightarrow> go_int \<Rightarrow> go_int \<Rightarrow> bool" where
  "HasPermission p userPermission requiredPermission =
     (if userPermission = - 1 \<or> userPermission = PermissionAdmin p then True
      else if userPermission AND PermissionAdmin p = PermissionAdmin p then True
      else userPermission AND requiredPermission \<noteq> 0)"

text \<open>The \<open>for\<close> loops over the variadic arguments.\<close>

fun any_required :: "go_int \<Rightarrow> go_int list \<Rightarrow> bool" where
  "any_required userPermission [] = False"
| "any_required userPermission (perm # rest) =
     (if userPermission AND perm \<noteq> 0 then True else any_required userPermission rest)"

fun all_required :: "go_int \<Rightarrow> go_int list \<Rightarrow> bool" where
  "all_required userPermission [] = True"
| "all_required userPermission (perm # rest) =
     (if userPermission AND perm = 0 then False else all_required userPermission rest)"

definition HasAnyPermission :: "masks \<Rightarrow> go_int \<Rightarrow> go_int list \<Rightarrow> bool" where
  "HasAnyPermission p userPermission requiredPermissions =
     (if userPermission = - 1 \<or> userPermission = PermissionAdmin p then True
      else if userPermission AND PermissionAdmin p = PermissionAdmin p then True
      else any_required userPermission requiredPermissions)"

definition HasAllPermissions :: "masks \<Rightarrow> go_int \<Rightarrow> go_int list \<Rightarrow> bool" where
  "HasAllPermissions p userPermission requiredPermissions =
     (if userPermission = - 1 \<or> userPermission = PermissionAdmin p then True
      else if userPermission AND PermissionAdmin p = PermissionAdmin p then True
      else all_required userPermission requiredPermissions)"

section \<open>Data model (package repository)\<close>

text \<open>
  Identifiers are Go \<open>uint\<close> values handed out by the database (\<open>SERIAL\<close>, from 1);
  no arithmetic is done on them, so they are natural numbers. A \<open>time.Time\<close> is an
  instant counted from Go's zero time, so \<open>IsZero\<close> is equality with 0. Amounts are
  \<open>float64\<close> in the structs; the only arithmetic the services do on them is a sum, and
  they are taken as real numbers. What a \<open>DECIMAL(10, 2)\<close> column makes of an amount
  that is written to it is part of the model, below. The columns \<open>created_at\<close> and
  \<open>updated_at\<close> and the preloaded associations play no part in the services and are
  left out. gorm's \<open>DeletedAt\<close> is the flag \<open>Deleted\<close>: a soft-deleted row stays in
  its table and every query skips it. Of the services, the operations modelled are those
  of the report service and of the expense service that change the database, the reads
  by id, the deposit service's \<open>GetByID\<close>, \<open>Update\<close> and \<open>Delete\<close>, and
  \<open>RefreshToken\<close>; the list queries, registration and login are not.
\<close>

type_synonym time = int

definition IsZero :: "time \<Rightarrow> bool" where
  "IsZero t \<longleftrightarrow> t = 0"

record Tenant =
  tn_ID :: nat
  tn_Name :: string
  tn_Subdomain :: string
  tn_Deleted :: bool

record Taxi =
  tx_ID :: nat
  tx_TenantID :: nat
  tx_LicensePlate :: string
  tx_Status :: string
  tx_AssignedDriverID :: "nat option"
  tx_Deleted :: bool

record WeeklyReport =
  wr_ID :: nat
  wr_TenantID :: nat
  wr_TaxiID :: nat
  wr_DriverID :: nat
  wr_WeekStartDate :: time
  wr_Earnings :: real
  wr_TotalExpenses :: real
  wr_Status :: string
  wr_Notes :: string
  wr_SubmittedAt :: "time option"
  wr_ApprovedAt :: "time option"
  wr_ApprovedByID :: "nat option"
  wr_Deleted :: bool

record Expense =
  ex_ID :: nat
  ex_TenantID :: nat
  ex_ReportID :: "nat option"
  ex_TaxiID :: "nat option"
  ex_Category :: string
  ex_Amount :: real
  ex_Reason :: string
  ex_ReceiptURL :: string
  ex_Date :: time
  ex_CreatedByID :: nat
  ex_Deleted :: bool

record BankDeposit =
  bd_ID :: nat
  bd_TenantID :: nat
  bd_Amount :: real
  bd_DepositDate :: time
  bd_PeriodStart :: time
  bd_PeriodEnd :: time
  bd_BankAccount :: string
  bd_ProofURL :: string
  bd_Notes :: string
  bd_Deleted :: bool

record User =
  us_ID :: nat
  us_TenantID :: nat
  us_Email :: string
  us_Permission :: go_int
  us_Active :: bool
  us_Deleted :: bool

record Session =
  se_ID :: nat
  se_UserID :: nat
  se_Token :: string
  se_ExpiresAt :: time
  se_Deleted :: bool

text \<open>The database: one list of rows per table, in row order.\<close>

record store =
  tenants :: "Tenant list"
  taxis :: "Taxi list"
  reports :: "WeeklyReport list"
  expenses :: "Expense list"
  deposits :: "BankDeposit list"
  users :: "User list"
  sessions :: "Session list"

text \<open>
  Every \<open>errors.New\<close> of the services is a constructor; \<open>RecordNotFound\<close> is gorm's
  \<open>ErrRecordNotFound\<close>, and \<open>DatabaseError\<close> the error of a statement that the
  database rejects. The text of a database error names the violated constraint and is
  not modelled.
\<close>

datatype error =
  RecordNotFound
| DatabaseError
| TaxiNotFound
| ReportNotFound
| ExpenseNotFound
| DepositNotFound
| Unauthorized
| CanOnlyEditDraft
| CannotEditApproved
| AlreadySubmitted
| OnlyOwnerOrAdmin
| MustBeSubmittedBeforeApproval
| MustBeSubmittedBeforeRejection
| CanOnlyDeleteDraft
| InvalidDateFormat
| InvalidRefreshToken
| UserNotFound

fun message :: "error \<Rightarrow> string" where
  "message RecordNotFound = ''record not found''"
| "message DatabaseError = []"
| "message TaxiNotFound = ''taxi not found''"
| "message ReportNotFound = ''report not found''"
| "message ExpenseNotFound = ''expense not found''"
| "message DepositNotFound = ''deposit not found''"
| "message Unauthorized = ''unauthorized''"
| "message CanOnlyEditDraft = ''can only edit draft reports''"
| "message CannotEditApproved = ''cannot edit approved reports''"
| "message AlreadySubmitted = ''report already submitted''"
| "message OnlyOwnerOrAdmin = ''only owner or admin can approve reports''"
| "message MustBeSubmittedBeforeApproval = ''report must be submitted before approval''"
| "message MustBeSubmittedBeforeRejection = ''report must be submitted before rejection''"
| "message CanOnlyDeleteDraft = ''can only delete draft reports''"
| "message InvalidDateFormat = ''invalid date format''"
| "message InvalidRefreshToken = ''invalid refresh token''"
| "message UserNotFound = ''user not found''"

text \<open>A \<open>First\<close> query: the row, or \<open>ErrRecordNotFound\<close>.\<close>

definition first_or_error :: "'a option \<Rightarrow> error + 'a" where
  "first_or_error r = (case r of None \<Rightarrow> Inl RecordNotFound | Some x \<Rightarrow> Inr x)"

subsection \<open>Columns and constraints of the schema\<close>

text \<open>
  The tables are those of \<open>migrations/001_initial_schema.up.sql\<close>. A column of type
  \<open>DECIMAL(10, 2)\<close> rounds the number it is given to two decimals, half away from
  zero, and rejects it when the rounded value needs more than eight digits before the
  point, that is when its absolute value is \<open>10^8\<close> or more. A column of type
  \<open>VARCHAR(n)\<close> rejects a string longer than \<open>n\<close> unless what exceeds \<open>n\<close> is
  spaces, which it cuts off. \<open>TEXT\<close>, boolean and timestamp columns keep what they are
  given; so does a \<open>DATE\<close> column here: the time of day that it drops plays no part in
  what follows. A foreign key is satisfied by a row of the referenced table, soft-deleted
  or not; a nullable one also by \<open>NULL\<close>.
\<close>

definition round_half_away :: "real \<Rightarrow> int" where
  "round_half_away x = (if 0 \<le> x then \<lfloor>x + 1 / 2\<rfloor> else - \<lfloor>- x + 1 / 2\<rfloor>)"

definition decimal_10_2 :: "real \<Rightarrow> real option" where
  "decimal_10_2 v =
     (let c = round_half_away (v * 100)
      in if \<bar>c\<bar> < 10 ^ 10 then Some (real_of_int c / 100) else None)"

definition varchar :: "nat \<Rightarrow> string \<Rightarrow> string option" where
  "varchar n s =
     (if length s \<le> n then Some s
      else if list_all (\<lambda>c. c = CHR '' '') (drop n s) then Some (take n s)
      else None)"

definition tenant_exists :: "store \<Rightarrow> nat \<Rightarrow> bool" where
  "tenant_exists st i \<longleftrightarrow> i \<in> set (map tn_ID (tenants st))"

definition taxi_exists :: "store \<Rightarrow> nat \<Rightarrow> bool" where
  "taxi_exists st i \<longleftrightarrow> i \<in> set (map tx_ID (taxis st))"

definition user_exists :: "store \<Rightarrow> nat \<Rightarrow> bool" where
  "user_exists st i \<longleftrightarrow> i \<in> set (map us_ID (users st))"

definition report_exists :: "store \<Rightarrow> nat \<Rightarrow> bool" where
  "report_exists st i \<longleftrightarrow> i \<in> set (map wr_ID (reports st))"

definition nullable :: "(nat \<Rightarrow> bool) \<Rightarrow> nat option \<Rightarrow> bool" where
  "nullable references k = (case k of None \<Rightarrow> True | Some i \<Rightarrow> references i)"

text \<open>
  Table \<open>weekly_reports\<close>: the foreign keys of a row, and the row as its columns
  keep it (\<open>None\<close> when a column rejects its value).
\<close>

definition report_fks :: "store \<Rightarrow> WeeklyReport \<Rightarrow> bool" where
  "report_fks st r \<longleftrightarrow>
     tenant_exists st (wr_TenantID r) \<and> taxi_exists st (wr_TaxiID r)
     \<and> user_exists st (wr_DriverID r) \<and> nullable (user_exists st) (wr_ApprovedByID r)"

definition report_columns :: "WeeklyReport \<Rightarrow> WeeklyReport option" where
  "report_columns r =
     (case decimal_10_2 (wr_Earnings r) of
        None \<Rightarrow> None
      | Some earnings \<Rightarrow>
          (case decimal_10_2 (wr_TotalExpenses r) of
             None \<Rightarrow> None
           | Some total_expenses \<Rightarrow>
               (case varchar 50 (wr_Status r) of
                  None \<Rightarrow> None
                | Some status \<Rightarrow>
                    Some (r\<lparr>wr_Earnings := earnings, wr_TotalExpenses := total_expenses,
                            wr_Status := status\<rparr>))))"

text \<open>Table \<open>expenses\<close>.\<close>

definition expense_fks :: "store \<Rightarrow> Expense \<Rightarrow> bool" where
  "expense_fks st e \<longleftrightarrow>
     tenant_exists st (ex_TenantID e) \<and> nullable (report_exists st) (ex_ReportID e)
     \<and> nullable (taxi_exists st) (ex_TaxiID e) \<and> user_exists st (ex_CreatedByID e)"

definition expense_columns :: "Expense \<Rightarrow> Expense option" where
  "expense_columns e =
     (case varchar 50 (ex_Category e) of
        None \<Rightarrow> None
      | Some category \<Rightarrow>
          (case decimal_10_2 (ex_Amount e) of
             None \<Rightarrow> None
           | Some amount \<Rightarrow> Some (e\<lparr>ex_Category := category, ex_Amount := amount\<rparr>)))"

text \<open>Table \<open>bank_deposits\<close>.\<close>

definition deposit_fks :: "store \<Rightarrow> BankDeposit \<Rightarrow> bool" where
  "deposit_fks st d \<longleftrightarrow> tenant_exists st (bd_TenantID d)"

definition deposit_columns :: "BankDeposit \<Rightarrow> BankDeposit option" where
  "deposit_columns d =
     (case decimal_10_2 (bd_Amount d) of
        None \<Rightarrow> None
      | Some amount \<Rightarrow>
          (case varchar 255 (bd_BankAccount d) of
             None \<Rightarrow> None
           | Some account \<Rightarrow> Some (d\<lparr>bd_Amount := amount, bd_BankAccount := account\<rparr>)))"

subsection \<open>Repository methods\<close>

definition GetTaxiByID :: "store \<Rightarrow> nat \<Rightarrow> Taxi option" where
  "GetTaxiByID st i = find (\<lambda>t. tx_ID t = i \<and> \<not> tx_Deleted t) (taxis st)"

definition GetUserByID :: "store \<Rightarrow> nat \<Rightarrow> User option" where
  "GetUserByID st i = find (\<lambda>u. us_ID u = i \<and> \<not> us_Deleted u) (users st)"

text \<open>
  \<open>CreateReport\<close> and \<open>CreateExpense\<close> are gorm's \<open>Create\<close>: an \<open>INSERT\<close> whose
  primary key comes from the table's sequence. The value the sequence yields is the
  parameter \<open>new_id\<close>. The insert fails with the database's error when a foreign key
  names no row, when a column rejects its value, or when the key is taken; otherwise
  the row is added as the columns keep it, and the id is set in the struct that was
  given.
\<close>

definition CreateReport :: "nat \<Rightarrow> store \<Rightarrow> WeeklyReport \<Rightarrow> error + store \<times> WeeklyReport" where
  "CreateReport new_id st r =
     (if report_exists st new_id \<or> \<not> report_fks st r then Inl DatabaseError
      else
        (case report_columns r of
           None \<Rightarrow> Inl DatabaseError
         | Some row \<Rightarrow>
             Inr (st\<lparr>reports := reports st @ [row\<lparr>wr_ID := new_id\<rparr>]\<rparr>, r\<lparr>wr_ID := new_id\<rparr>)))"

definition GetReportByID :: "store \<Rightarrow> nat \<Rightarrow> WeeklyReport option" where
  "GetReportByID st i = find (\<lambda>r. wr_ID r = i \<and> \<not> wr_Deleted r) (reports st)"

text \<open>
  \<open>UpdateReport\<close>, \<open>UpdateExpense\<close> and \<open>UpdateDeposit\<close> are gorm's \<open>Save\<close>: with a
  nonzero primary key it writes every column of the row of that key, and fails with the
  database's error, changing nothing, when a foreign key names no row or a column
  rejects its value. With a zero primary key \<open>Save\<close> inserts instead. Row ids start at
  1, so the only struct with a zero key that reaches \<open>Save\<close> is the zero
  \<open>WeeklyReport\<close> left by a failed lookup, whose tenant, taxi and driver 0 the foreign
  keys reject: that insert fails. The expense and deposit services call \<open>Save\<close> only
  with a row they have just read.
\<close>

definition UpdateReport :: "store \<Rightarrow> WeeklyReport \<Rightarrow> store \<times> error option" where
  "UpdateReport st r =
     (if wr_ID r = 0 \<or> \<not> report_fks st r then (st, Some DatabaseError)
      else
        (case report_columns r of
           None \<Rightarrow> (st, Some DatabaseError)
         | Some row \<Rightarrow>
             (st\<lparr>reports := map (\<lambda>x. if wr_ID x = wr_ID r then row else x) (reports st)\<rparr>,
              None)))"

definition DeleteReport :: "store \<Rightarrow> nat \<Rightarrow> store" where
  "DeleteReport st i =
     st\<lparr>reports := map (\<lambda>x. if wr_ID x = i then x\<lparr>wr_Deleted := True\<rparr> else x) (reports st)\<rparr>"

definition expense_exists :: "store \<Rightarrow> nat \<Rightarrow> bool" where
  "expense_exists st i \<longleftrightarrow> i \<in> set (map ex_ID (expenses st))"

definition CreateExpense :: "nat \<Rightarrow> store \<Rightarrow> Expense \<Rightarrow> error + store \<times> Expense" where
  "CreateExpense new_id st e =
     (if expense_exists st new_id \<or> \<not> expense_fks st e then Inl DatabaseError
      else
        (case expense_columns e of
           None \<Rightarrow> Inl DatabaseError
         | Some row \<Rightarrow>
             Inr (st\<lparr>expenses := expenses st @ [row\<lparr>ex_ID := new_id\<rparr>]\<rparr>, e\<lparr>ex_ID := new_id\<rparr>)))"

definition GetExpenseByID :: "store \<Rightarrow> nat \<Rightarrow> Expense option" where
  "GetExpenseByID st i = find (\<lambda>e. ex_ID e = i \<and> \<not> ex_Deleted e) (expenses st)"

definition GetExpensesByReport :: "store \<Rightarrow> nat \<Rightarrow> Expense list" where
  "GetExpensesByReport st reportID =
     filter (\<lambda>e. ex_ReportID e = Some reportID \<and> \<not> ex_Deleted e) (expenses st)"

definition UpdateExpense :: "store \<Rightarrow> Expense \<Rightarrow> store \<times> error option" where
  "UpdateExpense st e =
     (if \<not> expense_fks st e then (st, Some DatabaseError)
      else
        (case expense_columns e of
           None \<Rightarrow> (st, Some DatabaseError)
         | Some row \<Rightarrow>
             (st\<lparr>expenses := map (\<lambda>x. if ex_ID x = ex_ID e then row else x) (expenses st)\<rparr>,
              None)))"

definition DeleteExpense :: "store \<Rightarrow> nat \<Rightarrow> store" where
  "DeleteExpense st i =
     st\<lparr>expenses := map (\<lambda>x. if ex_ID x = i then x\<lparr>ex_Deleted := True\<rparr> else x) (expenses st)\<rparr>"

definition GetDepositByID :: "store \<Rightarrow> nat \<Rightarrow> BankDeposit option" where
  "GetDepositByID st i = find (\<lambda>d. bd_ID d = i \<and> \<not> bd_Deleted d) (deposits st)"

definition UpdateDeposit :: "store \<Rightarrow> BankDeposit \<Rightarrow> store \<times> error option" where
  "UpdateDeposit st d =
     (if \<not> deposit_fks st d then (st, Some DatabaseError)
      else
        (case deposit_columns d of
           None \<Rightarrow> (st, Some DatabaseError)
         | Some row \<Rightarrow>
             (st\<lparr>deposits := map (\<lambda>x. if bd_ID x = bd_ID d then row else x) (deposits st)\<rparr>,
              None)))"

definition DeleteDeposit :: "store \<Rightarrow> nat \<Rightarrow> store" where
  "DeleteDeposit st i =
     st\<lparr>deposits := map (\<lambda>x. if bd_ID x = i then x\<lparr>bd_Deleted := True\<rparr> else x) (deposits st)\<rparr>"

text \<open>\<open>GetSessionByToken\<close>: \<open>token = ? AND expires_at > NOW()\<close>.\<close>

definition GetSessionByToken :: "time \<Rightarrow> store \<Rightarrow> string \<Rightarrow> Session option" where
  "GetSessionByToken now st token =
     find (\<lambda>s. se_Token s = token \<and> se_ExpiresAt s > now \<and> \<not> se_Deleted s) (sessions st)"

definition DeleteUser :: "store \<Rightarrow> nat \<Rightarrow> store" where
  "DeleteUser st i =
     st\<lparr>users := map (\<lambda>x. if us_ID x = i then x\<lparr>us_Deleted := True\<rparr> else x) (users st)\<rparr>"

section \<open>Report service\<close>

record CreateReportRequest =
  crr_TaxiID :: nat
  crr_WeekStartDate :: time
  crr_Earnings :: real
  crr_Notes :: string

record UpdateReportRequest =
  urr_WeekStartDate :: time
  urr_Earnings :: real
  urr_Notes :: string

text \<open>The struct that \<open>Create\<close> builds from the request.\<close>

definition new_report :: "nat \<Rightarrow> nat \<Rightarrow> CreateReportRequest \<Rightarrow> WeeklyReport" where
  "new_report tenantID driverID req =
     \<lparr> wr_ID = 0, wr_TenantID = tenantID, wr_TaxiID = crr_TaxiID req,
       wr_DriverID = driverID, wr_WeekStartDate = crr_WeekStartDate req,
       wr_Earnings = crr_Earnings req, wr_TotalExpenses = 0,
       wr_Status = ''draft'', wr_Notes = crr_Notes req,
       wr_SubmittedAt = None, wr_ApprovedAt = None, wr_ApprovedByID = None,
       wr_Deleted = False \<rparr>"

definition ReportService_Create ::
    "nat \<Rightarrow> store \<Rightarrow> nat \<Rightarrow> nat \<Rightarrow> CreateReportRequest \<Rightarrow> store \<times> (error + WeeklyReport)" where
  "ReportService_Create new_id st tenantID driverID req =
     (case GetTaxiByID st (crr_TaxiID req) of
        None \<Rightarrow> (st, Inl TaxiNotFound)
      | Some taxi \<Rightarrow>
          if tx_TenantID taxi \<noteq> tenantID then (st, Inl TaxiNotFound)
          else
            let report = new_report tenantID driverID req
            in (case CreateReport new_id st report of
                  Inl e \<Rightarrow> (st, Inl e)
                | Inr (st1, report) \<Rightarrow>
                    (st1, first_or_error (GetReportByID st1 (wr_ID report)))))"

definition ReportService_GetByID :: "store \<Rightarrow> nat \<Rightarrow> nat \<Rightarrow> error + WeeklyReport" where
  "ReportService_GetByID st i tenantID =
     (case GetReportByID st i of
        None \<Rightarrow> Inl RecordNotFound
      | Some report \<Rightarrow>
          if wr_TenantID report \<noteq> tenantID then Inl ReportNotFound else Inr report)"

text \<open>The loop \<open>total := 0.0; for _, exp := range expenses { total += exp.Amount }\<close>.\<close>

definition sum_amounts :: "Expense list \<Rightarrow> real" where
  "sum_amounts es = fold (\<lambda>exp total. total + ex_Amount exp) es 0"

text \<open>The guard of \<open>Update\<close>: the error it returns, if any.\<close>

definition update_guard :: "masks \<Rightarrow> WeeklyReport \<Rightarrow> nat \<Rightarrow> go_int \<Rightarrow> error option" where
  "update_guard p report driverID permission =
     (let hasEditPermission = HasPermission p permission PermissionEditReports
      in if \<not> hasEditPermission then
           (if wr_DriverID report \<noteq> driverID then Some Unauthorized
            else if wr_Status report \<noteq> ''draft'' then Some CanOnlyEditDraft
            else None)
         else
           (if wr_Status report = ''approved'' then Some CannotEditApproved else None))"

text \<open>The three conditional assignments of \<open>Update\<close> from the request.\<close>

definition assign_report_fields :: "UpdateReportRequest \<Rightarrow> WeeklyReport \<Rightarrow> WeeklyReport" where
  "assign_report_fields req report =
     (let report = (if \<not> IsZero (urr_WeekStartDate req)
                    then report\<lparr>wr_WeekStartDate := urr_WeekStartDate req\<rparr> else report);
          report = (if urr_Earnings req \<noteq> 0
                    then report\<lparr>wr_Earnings := urr_Earnings req\<rparr> else report);
          report = (if urr_Notes req \<noteq> []
                    then report\<lparr>wr_Notes := urr_Notes req\<rparr> else report)
      in report)"

definition ReportService_Update ::
    "masks \<Rightarrow> store \<Rightarrow> nat \<Rightarrow> nat \<Rightarrow> nat \<Rightarrow> go_int \<Rightarrow> UpdateReportRequest
      \<Rightarrow> store \<times> (error + WeeklyReport)" where
  "ReportService_Update p st i tenantID driverID permission req =
     (case GetReportByID st i of
        None \<Rightarrow> (st, Inl RecordNotFound)
      | Some report \<Rightarrow>
          if wr_TenantID report \<noteq> tenantID then (st, Inl ReportNotFound)
          else
            (case update_guard p report driverID permission of
               Some e \<Rightarrow> (st, Inl e)
             | None \<Rightarrow>
                 let report = assign_report_fields req report;
                     report = report\<lparr>wr_TotalExpenses :=
                                sum_amounts (GetExpensesByReport st (wr_ID report))\<rparr>
                 in (case UpdateReport st report of
                       (st1, Some e) \<Rightarrow> (st1, Inl e)
                     | (st1, None) \<Rightarrow> (st1, first_or_error (GetReportByID st1 (wr_ID report))))))"

definition ReportService_Submit ::
    "time \<Rightarrow> store \<Rightarrow> nat \<Rightarrow> nat \<Rightarrow> nat \<Rightarrow> store \<times> (error + WeeklyReport)" where
  "ReportService_Submit now st i tenantID driverID =
     (case GetReportByID st i of
        None \<Rightarrow> (st, Inl RecordNotFound)
      | Some report \<Rightarrow>
          if wr_TenantID report \<noteq> tenantID then (st, Inl ReportNotFound)
          else if wr_DriverID report \<noteq> driverID then (st, Inl Unauthorized)
          else if wr_Status report \<noteq> ''draft'' then (st, Inl AlreadySubmitted)
          else
            let report = report\<lparr>wr_Status := ''submitted'', wr_SubmittedAt := Some now\<rparr>
            in (case UpdateReport st report of
                  (st1, Some e) \<Rightarrow> (st1, Inl e)
                | (st1, None) \<Rightarrow> (st1, first_or_error (GetReportByID st1 (wr_ID report)))))"

definition ReportService_Approve ::
    "masks \<Rightarrow> time \<Rightarrow> store \<Rightarrow> nat \<Rightarrow> nat \<Rightarrow> nat \<Rightarrow> go_int \<Rightarrow> store \<times> (error + WeeklyReport)" where
  "ReportService_Approve p now st i tenantID approvedByID permission =
     (if \<not> HasAnyPermission p permission [PermissionOwner p, PermissionAdmin p]
      then (st, Inl OnlyOwnerOrAdmin)
      else
        (case GetReportByID st i of
           None \<Rightarrow> (st, Inl RecordNotFound)
         | Some report \<Rightarrow>
             if wr_TenantID report \<noteq> tenantID then (st, Inl ReportNotFound)
             else if wr_Status report \<noteq> ''submitted'' then (st, Inl MustBeSubmittedBeforeApproval)
             else
               let report = report\<lparr>wr_Status := ''approved'', wr_ApprovedAt := Some now,
                                   wr_ApprovedByID := Some approvedByID\<rparr>
               in (case UpdateReport st report of
                     (st1, Some e) \<Rightarrow> (st1, Inl e)
                   | (st1, None) \<Rightarrow> (st1, first_or_error (GetReportByID st1 (wr_ID report))))))"

definition ReportService_Reject ::
    "store \<Rightarrow> nat \<Rightarrow> nat \<Rightarrow> store \<times> (error + WeeklyReport)" where
  "ReportService_Reject st i tenantID =
     (case GetReportByID st i of
        None \<Rightarrow> (st, Inl RecordNotFound)
      | Some report \<Rightarrow>
          if wr_TenantID report \<noteq> tenantID then (st, Inl ReportNotFound)
          else if wr_Status report \<noteq> ''submitted'' then (st, Inl MustBeSubmittedBeforeRejection)
          else
            let report = report\<lparr>wr_Status := ''rejected''\<rparr>
            in (case UpdateReport st report of
                  (st1, Some e) \<Rightarrow> (st1, Inl e)
                | (st1, None) \<Rightarrow> (st1, first_or_error (GetReportByID st1 (wr_ID report)))))"

definition ReportService_Delete ::
    "masks \<Rightarrow> store \<Rightarrow> nat \<Rightarrow> nat \<Rightarrow> nat \<Rightarrow> go_int \<Rightarrow> store \<times> error option" where
  "ReportService_Delete p st i tenantID driverID permission =
     (case GetReportByID st i of
        None \<Rightarrow> (st, Some RecordNotFound)
      | Some report \<Rightarrow>
          if wr_TenantID report \<noteq> tenantID then (st, Some ReportNotFound)
          else if HasAnyPermission p permission [PermissionOwner p, PermissionAdmin p]
          then (DeleteReport st i, None)
          else if permission = PermissionDriver p then
            (if wr_DriverID report \<noteq> driverID then (st, Some Unauthorized)
             else if wr_Status report \<noteq> ''draft'' then (st, Some CanOnlyDeleteDraft)
             else (DeleteReport st i, None))
          else (st, Some Unauthorized))"

section \<open>Expense service\<close>

record CreateExpenseRequest =
  cer_ReportID :: "nat option"
  cer_TaxiID :: "nat option"
  cer_Category :: string
  cer_Amount :: real
  cer_Reason :: string
  cer_ReceiptURL :: string
  cer_Date :: string

record UpdateExpenseRequest =
  uer_Category :: string
  uer_Amount :: real
  uer_Reason :: string
  uer_ReceiptURL :: string
  uer_Date :: string

text \<open>
  \<open>report, _ := s.repo.GetReportByID(...)\<close>: the repository returns the address of a
  local struct, so the pointer is never nil; after a failed lookup it points to the zero
  \<open>WeeklyReport\<close>.
\<close>

definition zero_report :: WeeklyReport where
  "zero_report =
     \<lparr> wr_ID = 0, wr_TenantID = 0, wr_TaxiID = 0, wr_DriverID = 0, wr_WeekStartDate = 0,
       wr_Earnings = 0, wr_TotalExpenses = 0, wr_Status = [], wr_Notes = [],
       wr_SubmittedAt = None, wr_ApprovedAt = None, wr_ApprovedByID = None,
       wr_Deleted = False \<rparr>"

definition report_or_zero :: "WeeklyReport option \<Rightarrow> WeeklyReport" where
  "report_or_zero r = (case r of None \<Rightarrow> zero_report | Some report \<Rightarrow> report)"

text \<open>
  The block the expense service repeats after each write: read the expenses of the
  report, add their amounts, store the total. The result of \<open>UpdateReport\<close> is
  dropped: when the database rejects the write, the stored total stays what it was.
\<close>

definition recalculate_total :: "store \<Rightarrow> WeeklyReport \<Rightarrow> store" where
  "recalculate_total st report =
     fst (UpdateReport st
            (report\<lparr>wr_TotalExpenses := sum_amounts (GetExpensesByReport st (wr_ID report))\<rparr>))"

text \<open>
  \<open>Update\<close> and \<open>Delete\<close> run that block for the report the expense is part of, if
  there is one; the test \<open>report != nil\<close> is always true.
\<close>

definition update_report_total :: "store \<Rightarrow> nat option \<Rightarrow> store" where
  "update_report_total st reportID =
     (case reportID of
        None \<Rightarrow> st
      | Some rid \<Rightarrow> recalculate_total st (report_or_zero (GetReportByID st rid)))"

text \<open>
  \<open>time.Parse("2006-01-02", s)\<close> is the parameter \<open>parse\<close>, and \<open>time.Now()\<close> the
  parameter \<open>now\<close>. The empty string is \<open>[]\<close>. \<open>new_expense\<close> is the struct that
  \<open>Create\<close> builds from the request, before it sets the date.
\<close>

definition new_expense :: "nat \<Rightarrow> nat \<Rightarrow> CreateExpenseRequest \<Rightarrow> Expense" where
  "new_expense tenantID createdByID req =
     \<lparr> ex_ID = 0, ex_TenantID = tenantID, ex_ReportID = cer_ReportID req,
       ex_TaxiID = cer_TaxiID req, ex_Category = cer_Category req,
       ex_Amount = cer_Amount req, ex_Reason = cer_Reason req,
       ex_ReceiptURL = cer_ReceiptURL req, ex_Date = 0,
       ex_CreatedByID = createdByID, ex_Deleted = False \<rparr>"

definition ExpenseService_Create ::
    "(string \<Rightarrow> time option) \<Rightarrow> time \<Rightarrow> nat \<Rightarrow> store \<Rightarrow> nat \<Rightarrow> nat \<Rightarrow> CreateExpenseRequest
      \<Rightarrow> store \<times> (error + Expense)" where
  "ExpenseService_Create parse now new_id st tenantID createdByID req =
     (let expense = new_expense tenantID createdByID req
      in case (if cer_Date req \<noteq> [] then
                 (case parse (cer_Date req) of
                    None \<Rightarrow> Inl InvalidDateFormat
                  | Some date \<Rightarrow> Inr (expense\<lparr>ex_Date := date\<rparr>))
               else Inr (expense\<lparr>ex_Date := now\<rparr>)) of
           Inl e \<Rightarrow> (st, Inl e)
         | Inr expense \<Rightarrow>
             (case CreateExpense new_id st expense of
                Inl e \<Rightarrow> (st, Inl e)
              | Inr (st1, expense) \<Rightarrow>
                  let st2 = (case cer_ReportID req of
                               None \<Rightarrow> st1
                             | Some reportID \<Rightarrow>
                                 let report = report_or_zero (GetReportByID st1 reportID)
                                 in if wr_TenantID report = tenantID
                                    then recalculate_total st1 report else st1)
                  in (st2, first_or_error (GetExpenseByID st2 (ex_ID expense)))))"

definition ExpenseService_GetByID :: "store \<Rightarrow> nat \<Rightarrow> nat \<Rightarrow> error + Expense" where
  "ExpenseService_GetByID st i tenantID =
     (case GetExpenseByID st i of
        None \<Rightarrow> Inl RecordNotFound
      | Some expense \<Rightarrow>
          if ex_TenantID expense \<noteq> tenantID then Inl ExpenseNotFound else Inr expense)"

text \<open>The four conditional assignments of \<open>Update\<close> that cannot fail.\<close>

definition assign_expense_fields :: "UpdateExpenseRequest \<Rightarrow> Expense \<Rightarrow> Expense" where
  "assign_expense_fields req expense =
     (let expense = (if uer_Category req \<noteq> []
                     then expense\<lparr>ex_Category := uer_Category req\<rparr> else expense);
          expense = (if uer_Amount req \<noteq> 0
                     then expense\<lparr>ex_Amount := uer_Amount req\<rparr> else expense);
          expense = (if uer_Reason req \<noteq> []
                     then expense\<lparr>ex_Reason := uer_Reason req\<rparr> else expense);
          expense = (if uer_ReceiptURL req \<noteq> []
                     then expense\<lparr>ex_ReceiptURL := uer_ReceiptURL req\<rparr> else expense)
      in expense)"

definition ExpenseService_Update ::
    "(string \<Rightarrow> time option) \<Rightarrow> store \<Rightarrow> nat \<Rightarrow> nat \<Rightarrow> UpdateExpenseRequest
      \<Rightarrow> store \<times> (error + Expense)" where
  "ExpenseService_Update parse st i tenantID req =
     (case GetExpenseByID st i of
        None \<Rightarrow> (st, Inl RecordNotFound)
      | Some expense \<Rightarrow>
          if ex_TenantID expense \<noteq> tenantID then (st, Inl ExpenseNotFound)
          else
            let expense = assign_expense_fields req expense
            in case (if uer_Date req \<noteq> [] then
                       (case parse (uer_Date req) of
                          None \<Rightarrow> Inl InvalidDateFormat
                        | Some date \<Rightarrow> Inr (expense\<lparr>ex_Date := date\<rparr>))
                     else Inr expense) of
                 Inl e \<Rightarrow> (st, Inl e)
               | Inr expense \<Rightarrow>
                   (case UpdateExpense st expense of
                      (st1, Some e) \<Rightarrow> (st1, Inl e)
                    | (st1, None) \<Rightarrow>
                        let st2 = update_report_total st1 (ex_ReportID expense)
                        in (st2, first_or_error (GetExpenseByID st2 (ex_ID expense)))))"

definition ExpenseService_Delete :: "store \<Rightarrow> nat \<Rightarrow> nat \<Rightarrow> store \<times> error option" where
  "ExpenseService_Delete st i tenantID =
     (case GetExpenseByID st i of
        None \<Rightarrow> (st, Some RecordNotFound)
      | Some expense \<Rightarrow>
          if ex_TenantID expense \<noteq> tenantID then (st, Some ExpenseNotFound)
          else
            let reportID = ex_ReportID expense;
                st1 = DeleteExpense st i;
                st2 = update_report_total st1 reportID
            in (st2, None))"

section \<open>Deposit service\<close>

record UpdateDepositRequest =
  udr_Amount :: real
  udr_DepositDate :: string
  udr_PeriodStart :: string
  udr_PeriodEnd :: string
  udr_BankAccount :: string
  udr_ProofURL :: string
  udr_Notes :: string

text \<open>\<open>t, _ := time.Parse(...)\<close>: the error is dropped and \<open>t\<close> is then the zero time.\<close>

definition parse_or_zero :: "(string \<Rightarrow> time option) \<Rightarrow> string \<Rightarrow> time" where
  "parse_or_zero parse s = (case parse s of None \<Rightarrow> 0 | Some t \<Rightarrow> t)"

definition DepositService_GetByID :: "store \<Rightarrow> nat \<Rightarrow> nat \<Rightarrow> error + BankDeposit" where
  "DepositService_GetByID st i tenantID =
     (case GetDepositByID st i of
        None \<Rightarrow> Inl RecordNotFound
      | Some deposit \<Rightarrow>
          if bd_TenantID deposit \<noteq> tenantID then Inl DepositNotFound else Inr deposit)"

definition assign_deposit_fields ::
    "(string \<Rightarrow> time option) \<Rightarrow> UpdateDepositRequest \<Rightarrow> BankDeposit \<Rightarrow> BankDeposit" where
  "assign_deposit_fields parse req deposit =
     (let deposit = (if udr_Amount req \<noteq> 0
                     then deposit\<lparr>bd_Amount := udr_Amount req\<rparr> else deposit);
          deposit = (if udr_DepositDate req \<noteq> []
                     then deposit\<lparr>bd_DepositDate := parse_or_zero parse (udr_DepositDate req)\<rparr>
                     else deposit);
          deposit = (if udr_PeriodStart req \<noteq> []
                     then deposit\<lparr>bd_PeriodStart := parse_or_zero parse (udr_PeriodStart req)\<rparr>
                     else deposit);
          deposit = (if udr_PeriodEnd req \<noteq> []
                     then deposit\<lparr>bd_PeriodEnd := parse_or_zero parse (udr_PeriodEnd req)\<rparr>
                     else deposit);
          deposit = (if udr_BankAccount req \<noteq> []
                     then deposit\<lparr>bd_BankAccount := udr_BankAccount req\<rparr> else deposit);
          deposit = (if udr_ProofURL req \<noteq> []
                     then deposit\<lparr>bd_ProofURL := udr_ProofURL req\<rparr> else deposit);
          deposit = (if udr_Notes req \<noteq> []
                     then deposit\<lparr>bd_Notes := udr_Notes req\<rparr> else deposit)
      in deposit)"

definition DepositService_Update ::
    "(string \<Rightarrow> time option) \<Rightarrow> store \<Rightarrow> nat \<Rightarrow> nat \<Rightarrow> UpdateDepositRequest
      \<Rightarrow> store \<times> (error + BankDeposit)" where
  "DepositService_Update parse st i tenantID req =
     (case GetDepositByID st i of
        None \<Rightarrow> (st, Inl RecordNotFound)
      | Some deposit \<Rightarrow>
          if bd_TenantID deposit \<noteq> tenantID then (st, Inl DepositNotFound)
          else
            let deposit = assign_deposit_fields parse req deposit
            in (case UpdateDeposit st deposit of
                  (st1, Some e) \<Rightarrow> (st1, Inl e)
                | (st1, None) \<Rightarrow> (st1, first_or_error (GetDepositByID st1 (bd_ID deposit)))))"

definition DepositService_Delete :: "store \<Rightarrow> nat \<Rightarrow> nat \<Rightarrow> store \<times> error option" where
  "DepositService_Delete st i tenantID =
     (case GetDepositByID st i of
        None \<Rightarrow> (st, Some RecordNotFound)
      | Some deposit \<Rightarrow>
          if bd_TenantID deposit \<noteq> tenantID then (st, Some DepositNotFound)
          else (DeleteDeposit st i, None))"

section \<open>Authentication service\<close>

text \<open>
  The claims of a token, and the expiry settings of the configuration. Signing
  (\<open>SignedString\<close> with HS256 and the configured secret) is the parameter \<open>sign\<close>; it
  does not fail for a byte-slice key.
\<close>

record jwt_claims =
  jc_user_id :: nat
  jc_email :: "string option"
  jc_permission :: go_int
  jc_iat :: time
  jc_exp :: time

record JWTConfig =
  Expiration :: int
  RefreshExpiration :: int

definition generateTokens ::
    "(jwt_claims \<Rightarrow> string) \<Rightarrow> JWTConfig \<Rightarrow> time \<Rightarrow> User \<Rightarrow> string \<times> string" where
  "generateTokens sign cfg now user =
     (sign \<lparr> jc_user_id = us_ID user, jc_email = Some (us_Email user),
             jc_permission = us_Permission user, jc_iat = now,
             jc_exp = now + Expiration cfg \<rparr>,
      sign \<lparr> jc_user_id = us_ID user, jc_email = None,
             jc_permission = us_Permission user, jc_iat = now,
             jc_exp = now + RefreshExpiration cfg \<rparr>)"

definition AuthService_RefreshToken ::
    "(jwt_claims \<Rightarrow> string) \<Rightarrow> JWTConfig \<Rightarrow> time \<Rightarrow> store \<Rightarrow> string \<Rightarrow> store \<times> (error + string)" where
  "AuthService_RefreshToken sign cfg now st refreshToken =
     (case GetSessionByToken now st refreshToken of
        None \<Rightarrow> (st, Inl InvalidRefreshToken)
      | Some session \<Rightarrow>
          (case GetUserByID st (se_UserID session) of
             None \<Rightarrow> (st, Inl UserNotFound)
           | Some user \<Rightarrow> (st, Inr (fst (generateTokens sign cfg now user)))))"

text \<open>\<open>AdminService.DeleteUser\<close> soft-deletes the user row and nothing else.\<close>

definition AdminService_DeleteUser :: "store \<Rightarrow> nat \<Rightarrow> store" where
  "AdminService_DeleteUser st i = DeleteUser st i"

section \<open>The specification's vocabulary\<close>

text \<open>
  The admin sentinel in the specification's words: the mask is \<open>-1\<close>, or it has all
  bits of the admin mask set.
\<close>

definition admin_sentinel :: "masks \<Rightarrow> go_int \<Rightarrow> bool" where
  "admin_sentinel p m \<longleftrightarrow> m = - 1 \<or> m AND PermissionAdmin p = PermissionAdmin p"

text \<open>Every bit of every required value is set in the mask.\<close>

definition every_bit_set :: "go_int \<Rightarrow> go_int list \<Rightarrow> bool" where
  "every_bit_set m S \<longleftrightarrow> list_all (\<lambda>r. m AND r = r) S"

text \<open>The mask shares at least one bit with every required value.\<close>

definition shares_a_bit_with_each :: "go_int \<Rightarrow> go_int list \<Rightarrow> bool" where
  "shares_a_bit_with_each m S \<longleftrightarrow> list_all (\<lambda>r. m AND r \<noteq> 0) S"

text \<open>A required value that is one permission bit, \<open>1 << k\<close>.\<close>

definition single_bit :: "go_int \<Rightarrow> bool" where
  "single_bit r \<longleftrightarrow> list_ex (\<lambda>k. r = push_bit k 1) [0..<64]"

text \<open>A session row that \<open>GetSessionByToken\<close> accepts for a token at a given time.\<close>

definition unexpired_session :: "time \<Rightarrow> string \<Rightarrow> Session \<Rightarrow> bool" where
  "unexpired_session now token s \<longleftrightarrow> se_Token s = token \<and> now < se_ExpiresAt s \<and> \<not> se_Deleted s"

text \<open>A date string that \<open>ExpenseService.Create\<close> accepts: empty, or one that parses.\<close>

definition date_accepted :: "(string \<Rightarrow> time option) \<Rightarrow> string \<Rightarrow> bool" where
  "date_accepted parse s \<longleftrightarrow> s = [] \<or> parse s \<noteq> None"

text \<open>
  A number that a \<open>DECIMAL(10, 2)\<close> column takes: rounded to two decimals it is below
  \<open>10^8\<close> in absolute value. A string that a \<open>VARCHAR(n)\<close> column takes: it is not
  longer than \<open>n\<close>, or what exceeds \<open>n\<close> is spaces.
\<close>

definition fits_decimal_10_2 :: "real \<Rightarrow> bool" where
  "fits_decimal_10_2 v \<longleftrightarrow> \<bar>v\<bar> < 99999999.995"

definition fits_varchar :: "nat \<Rightarrow> string \<Rightarrow> bool" where
  "fits_varchar n s \<longleftrightarrow> length s \<le> n \<or> set (drop n s) \<subseteq> {CHR '' ''}"

text \<open>
  A request to create an expense whose insert the database accepts: the key is free, the
  caller's tenant and user, the report and the taxi (when given) are rows of their
  tables, and the columns take the category and the amount.
\<close>

definition insert_accepted :: "nat \<Rightarrow> store \<Rightarrow> nat \<Rightarrow> nat \<Rightarrow> CreateExpenseRequest \<Rightarrow> bool" where
  "insert_accepted new_id st tenantID createdByID req \<longleftrightarrow>
     \<not> expense_exists st new_id
     \<and> tenant_exists st tenantID \<and> user_exists st createdByID
     \<and> (case cer_ReportID req of None \<Rightarrow> True | Some rid \<Rightarrow> report_exists st rid)
     \<and> (case cer_TaxiID req of None \<Rightarrow> True | Some t \<Rightarrow> taxi_exists st t)
     \<and> fits_varchar 50 (cer_Category req) \<and> fits_decimal_10_2 (cer_Amount req)"

text \<open>
  The expenses linked to a report: those that are not deleted and whose \<open>report_id\<close> is
  the report's id. A report's total matches when the report is deleted or its
  \<open>total_expenses\<close> is the sum of the amounts of the expenses linked to it; the totals of
  a database are consistent when this holds for every report.
\<close>

definition linked_expenses :: "Expense list \<Rightarrow> nat \<Rightarrow> Expense list" where
  "linked_expenses es reportID = filter (\<lambda>e. ex_ReportID e = Some reportID \<and> \<not> ex_Deleted e) es"

definition linked_sum :: "Expense list \<Rightarrow> nat \<Rightarrow> real" where
  "linked_sum es reportID = sum_list (map ex_Amount (linked_expenses es reportID))"

definition report_total_matches :: "Expense list \<Rightarrow> WeeklyReport \<Rightarrow> bool" where
  "report_total_matches es r \<longleftrightarrow> wr_Deleted r \<or> wr_TotalExpenses r = linked_sum es (wr_ID r)"

definition totals_consistent :: "store \<Rightarrow> bool" where
  "totals_consistent st \<longleftrightarrow> list_all (report_total_matches (expenses st)) (reports st)"

text \<open>
  The totals of a database fit when the column \<open>total_expenses\<close> takes the sum of the
  amounts linked to every report.
\<close>

definition totals_fit :: "store \<Rightarrow> bool" where
  "totals_fit st \<longleftrightarrow>
     list_all (\<lambda>r. wr_Deleted r \<or> fits_decimal_10_2 (linked_sum (expenses st) (wr_ID r)))
       (reports st)"

text \<open>
  What the schema guarantees about the rows of the reports and expenses of a database:
  expense ids are unique, report ids are positive, the foreign keys of every row name
  rows, and every row holds values of its columns' types, that is values the columns
  keep as they are.
\<close>

definition schema_holds :: "store \<Rightarrow> bool" where
  "schema_holds st \<longleftrightarrow>
     distinct (map ex_ID (expenses st))
     \<and> list_all (\<lambda>r. 0 < wr_ID r \<and> report_fks st r \<and> report_columns r = Some r) (reports st)
     \<and> list_all (\<lambda>e. expense_fks st e \<and> expense_columns e = Some e) (expenses st)"

text \<open>
  The state-changing operations of the report and expense services, and the store each
  leaves behind. The two \<open>Create\<close> operations carry the id that the sequence yields.
\<close>

datatype call =
    ReportCreate nat nat nat CreateReportRequest
  | ReportUpdate nat nat nat go_int UpdateReportRequest
  | ReportSubmit nat nat nat
  | ReportApprove nat nat nat go_int
  | ReportReject nat nat
  | ReportDelete nat nat nat go_int
  | ExpenseCreate nat nat nat CreateExpenseRequest
  | ExpenseUpdate nat nat UpdateExpenseRequest
  | ExpenseDelete nat nat



text \<open>An \<open>ExpenseService.Create\<close> whose \<open>report_id\<close> names a report of another tenant.\<close>

fun links_foreign_report :: "store \<Rightarrow> call \<Rightarrow> bool" where
  "links_foreign_report st (ExpenseCreate new_id tenantID createdByID req) =
     (case cer_ReportID req of
        None \<Rightarrow> False
      | Some rid \<Rightarrow>
          (case GetReportByID st rid of
             None \<Rightarrow> False
           | Some r \<Rightarrow> wr_TenantID r \<noteq> tenantID))"
| "links_foreign_report st c = False"

section \<open>Example data\<close>

text \<open>
  A small database: tenant 1 with one taxi, the drivers 7 and 8 and the owner 9, one
  submitted report of driver 7 with one expense of 30 linked to it, one deposit and a
  refresh session of driver 7; and tenant 2 with the user 20.
\<close>

definition example_report :: WeeklyReport where
  "example_report =
     \<lparr> wr_ID = 1, wr_TenantID = 1, wr_TaxiID = 1, wr_DriverID = 7, wr_WeekStartDate = 1000,
       wr_Earnings = 500, wr_TotalExpenses = 30, wr_Status = ''submitted'', wr_Notes = [],
       wr_SubmittedAt = Some 1500, wr_ApprovedAt = None, wr_ApprovedByID = None,
       wr_Deleted = False \<rparr>"

definition example_expense :: Expense where
  "example_expense =
     \<lparr> ex_ID = 1, ex_TenantID = 1, ex_ReportID = Some 1, ex_TaxiID = Some 1,
       ex_Category = ''fuel'', ex_Amount = 30, ex_Reason = [], ex_ReceiptURL = [],
       ex_Date = 1100, ex_CreatedByID = 7, ex_Deleted = False \<rparr>"

definition example_deposit :: BankDeposit where
  "example_deposit =
     \<lparr> bd_ID = 1, bd_TenantID = 1, bd_Amount = 250, bd_DepositDate = 1200,
       bd_PeriodStart = 1000, bd_PeriodEnd = 1100, bd_BankAccount = ''acc'',
       bd_ProofURL = [], bd_Notes = [], bd_Deleted = False \<rparr>"

definition example_users :: "User list" where
  "example_users =
     [\<lparr> us_ID = 7, us_TenantID = 1, us_Email = ''driver@gnakpa-transport.com'',
        us_Permission = 3, us_Active = True, us_Deleted = False \<rparr>,
      \<lparr> us_ID = 8, us_TenantID = 1, us_Email = ''driver2@gnakpa-transport.com'',
        us_Permission = 3, us_Active = True, us_Deleted = False \<rparr>,
      \<lparr> us_ID = 9, us_TenantID = 1, us_Email = ''owner@gnakpa-transport.com'',
        us_Permission = 0xFFFFF, us_Active = True, us_Deleted = False \<rparr>,
      \<lparr> us_ID = 20, us_TenantID = 2, us_Email = ''driver@other-fleet.com'',
        us_Permission = 3, us_Active = True, us_Deleted = False \<rparr>]"

definition example_store :: store where
  "example_store =
     \<lparr> tenants = [\<lparr> tn_ID = 1, tn_Name = ''Gnakpa Transport'', tn_Subdomain = ''gnakpa'',
                     tn_Deleted = False \<rparr>,
                  \<lparr> tn_ID = 2, tn_Name = ''Other Fleet'', tn_Subdomain = ''other'',
                     tn_Deleted = False \<rparr>],
       taxis = [\<lparr> tx_ID = 1, tx_TenantID = 1, tx_LicensePlate = ''ABC-123'',
                   tx_Status = ''active'', tx_AssignedDriverID = Some 7, tx_Deleted = False \<rparr>],
       reports = [example_report],
       expenses = [example_expense],
       deposits = [example_deposit],
       users = example_users,
       sessions = [\<lparr> se_ID = 1, se_UserID = 7, se_Token = ''refresh'', se_ExpiresAt = 9000,
                      se_Deleted = False \<rparr>] \<rparr>"

text \<open>The same database with the report already approved.\<close>

definition approved_store :: store where
  "approved_store = example_store\<lparr>reports := [example_report\<lparr>wr_Status := ''approved''\<rparr>]\<rparr>"

lemmas example_defs =
  example_store_def example_users_def example_report_def example_expense_def example_deposit_def
  approved_store_def

lemmas mask_defs = configured_masks_def initial_masks_def SetPermissionMasks_def permission_bit_defs

lemmas schema_defs =
  tenant_exists_def taxi_exists_def user_exists_def report_exists_def expense_exists_def
  nullable_def report_fks_def expense_fks_def deposit_fks_def
  report_columns_def expense_columns_def deposit_columns_def varchar_def

lemmas repo_defs =
  GetTaxiByID_def GetUserByID_def GetReportByID_def GetExpenseByID_def GetDepositByID_def
  GetExpensesByReport_def GetSessionByToken_def CreateReport_def CreateExpense_def
  UpdateReport_def UpdateExpense_def UpdateDeposit_def
  DeleteReport_def DeleteExpense_def DeleteDeposit_def DeleteUser_def first_or_error_def

lemmas service_defs =
  ReportService_Create_def ReportService_GetByID_def ReportService_Update_def
  ReportService_Submit_def ReportService_Approve_def ReportService_Reject_def
  ReportService_Delete_def
  ExpenseService_Create_def ExpenseService_GetByID_def ExpenseService_Update_def
  ExpenseService_Delete_def
  DepositService_GetByID_def DepositService_Update_def DepositService_Delete_def
  AuthService_RefreshToken_def AdminService_DeleteUser_def generateTokens_def
  update_guard_def assign_report_fields_def assign_expense_fields_def assign_deposit_fields_def
  recalculate_total_def update_report_total_def report_or_zero_def zero_report_def sum_amounts_def parse_or_zero_def
  new_report_def new_expense_def
  HasPermission_def HasAnyPermission_def IsZero_def Let_def

text \<open>The same database with no expense yet, and a request for an expense of 42.50
  linked to report 1.\<close>

definition untouched_store :: store where
  "untouched_store =
     example_store\<lparr>reports := [example_report\<lparr>wr_TotalExpenses := 0\<rparr>], expenses := []\<rparr>"

definition expense_request :: CreateExpenseRequest where
  "expense_request =
     \<lparr> cer_ReportID = Some 1, cer_TaxiID = None, cer_Category = ''fuel'', cer_Amount = 42.5,
       cer_Reason = [], cer_ReceiptURL = [], cer_Date = ''2026-01-05'' \<rparr>"

text \<open>The same database with one expense of 60,000,000 linked to report 1, whose total
  is 60,000,000, and a request for another expense of that amount.\<close>

definition loaded_store :: store where
  "loaded_store =
     example_store\<lparr>reports := [example_report\<lparr>wr_TotalExpenses := 60000000\<rparr>],
                   expenses := [example_expense\<lparr>ex_Amount := 60000000\<rparr>]\<rparr>"

definition large_request :: CreateExpenseRequest where
  "large_request = expense_request\<lparr>cer_Amount := 60000000\<rparr>"

definition example_parse :: "string \<Rightarrow> time option" where
  "example_parse s = (if s = ''2026-01-05'' then Some 1700 else None)"

definition example_sign :: "jwt_claims \<Rightarrow> string" where
  "example_sign c = (if jc_email c = None then ''refresh-token'' else ''access-token'')"

definition example_jwt :: JWTConfig where
  "example_jwt = \<lparr> Expiration = 900, RefreshExpiration = 604800 \<rparr>"

lemmas invariant_defs = totals_consistent_def schema_holds_def report_total_matches_def
  linked_expenses_def linked_sum_def totals_fit_def date_accepted_def insert_accepted_def
  fits_decimal_10_2_def fits_varchar_def
  example_parse_def expense_request_def untouched_store_def loaded_store_def large_request_def

section \<open>Facts about the columns\<close>












lemma varchar_fits: "length s \<le> n \<Longrightarrow> varchar n s = Some s"
  by (simp add: varchar_def)

text \<open>The row that a table keeps: which fields the columns leave alone.\<close>

lemma report_columns_SomeD:
  assumes "report_columns r = Some row"
  shows "decimal_10_2 (wr_Earnings r) = Some (wr_Earnings row)"
    and "decimal_10_2 (wr_TotalExpenses r) = Some (wr_TotalExpenses row)"
    and "varchar 50 (wr_Status r) = Some (wr_Status row)"
    and "wr_ID row = wr_ID r" and "wr_TenantID row = wr_TenantID r"
    and "wr_TaxiID row = wr_TaxiID r" and "wr_DriverID row = wr_DriverID r"
    and "wr_WeekStartDate row = wr_WeekStartDate r" and "wr_Notes row = wr_Notes r"
    and "wr_SubmittedAt row = wr_SubmittedAt r" and "wr_ApprovedAt row = wr_ApprovedAt r"
    and "wr_ApprovedByID row = wr_ApprovedByID r" and "wr_Deleted row = wr_Deleted r"
  using assms by (auto simp add: report_columns_def split: option.splits)

lemma report_columns_fixed_iff:
  "report_columns r = Some r \<longleftrightarrow>
     decimal_10_2 (wr_Earnings r) = Some (wr_Earnings r)
     \<and> decimal_10_2 (wr_TotalExpenses r) = Some (wr_TotalExpenses r)
     \<and> varchar 50 (wr_Status r) = Some (wr_Status r)"
proof
  assume "report_columns r = Some r"
  from report_columns_SomeD(1-3) [OF this] show "decimal_10_2 (wr_Earnings r) = Some (wr_Earnings r)
     \<and> decimal_10_2 (wr_TotalExpenses r) = Some (wr_TotalExpenses r)
     \<and> varchar 50 (wr_Status r) = Some (wr_Status r)" by simp
next
  assume "decimal_10_2 (wr_Earnings r) = Some (wr_Earnings r)
     \<and> decimal_10_2 (wr_TotalExpenses r) = Some (wr_TotalExpenses r)
     \<and> varchar 50 (wr_Status r) = Some (wr_Status r)"
  then show "report_columns r = Some r" by (simp add: report_columns_def)
qed



lemma expense_columns_SomeD:
  assumes "expense_columns e = Some row"
  shows "varchar 50 (ex_Category e) = Some (ex_Category row)"
    and "decimal_10_2 (ex_Amount e) = Some (ex_Amount row)"
    and "ex_ID row = ex_ID e" and "ex_TenantID row = ex_TenantID e"
    and "ex_ReportID row = ex_ReportID e" and "ex_TaxiID row = ex_TaxiID e"
    and "ex_Reason row = ex_Reason e" and "ex_ReceiptURL row = ex_ReceiptURL e"
    and "ex_Date row = ex_Date e" and "ex_CreatedByID row = ex_CreatedByID e"
    and "ex_Deleted row = ex_Deleted e"
  using assms by (auto simp add: expense_columns_def split: option.splits)




lemma expense_fks_columns:
  "expense_columns e = Some row \<Longrightarrow> expense_fks st row = expense_fks st e"
  by (simp add: expense_fks_def expense_columns_SomeD)


section \<open>Facts about the permission model\<close>

lemma and_single_bit_nonzero_iff:
  assumes "k < 64"
  shows "(m AND push_bit k (1::go_int) \<noteq> 0) = (m AND push_bit k 1 = push_bit k 1)"
proof -
  have nz: "(m AND 2 ^ k \<noteq> 0) = bit m k"
    by (simp add: and_exp_eq_0_iff_not_bit)
  have "(m AND 2 ^ k = 2 ^ k) = bit m k"
  proof
    assume "m AND 2 ^ k = 2 ^ k"
    then have "bit (m AND 2 ^ k) k = bit ((2::go_int) ^ k) k" by simp
    with assms show "bit m k" by (simp add: bit_and_iff bit_exp_iff)
  next
    assume "bit m k"
    then show "m AND 2 ^ k = 2 ^ k"
      by (intro bit_eqI) (auto simp add: bit_and_iff bit_exp_iff)
  qed
  with nz show ?thesis by (simp add: push_bit_of_1)
qed

lemma single_bit_overlap_iff:
  assumes "single_bit r"
  shows "(m AND r = 0) = (m AND r \<noteq> r)"
proof -
  from assms obtain k where "k < 64" and "r = push_bit k 1"
    by (auto simp add: single_bit_def list_ex_iff)
  then show ?thesis
    using and_single_bit_nonzero_iff [of k m] by auto
qed

lemma all_required_single_bits:
  "list_all single_bit S \<Longrightarrow> all_required m S = every_bit_set m S"
proof (induction S)
  case Nil
  show ?case by (simp add: every_bit_set_def)
next
  case (Cons r S)
  then have "single_bit r" and "all_required m S = every_bit_set m S" by simp_all
  then show ?case
    using single_bit_overlap_iff [of r m] by (auto simp add: every_bit_set_def)
qed

lemma low_word_all_ones:
  assumes "- (2 ^ 31) \<le> sint (m::go_int)" and "sint m < 2 ^ 32"
  shows "(m AND 0xFFFFFFFF = 0xFFFFFFFF) = (m = - 1 \<or> m = 0xFFFFFFFF)"
proof
  assume "m = - 1 \<or> m = 0xFFFFFFFF"
  then show "m AND 0xFFFFFFFF = 0xFFFFFFFF" by auto
next
  assume a: "m AND 0xFFFFFFFF = 0xFFFFFFFF"
  have "uint (m AND 0xFFFFFFFF) = uint (0xFFFFFFFF :: go_int)" using a by simp
  then have "uint m AND mask 32 = 2 ^ 32 - 1"
    by (simp add: uint_and mask_eq_exp_minus_1)
  then have "uint m mod 2 ^ 32 = 2 ^ 32 - 1"
    by (simp flip: take_bit_eq_mask add: take_bit_eq_mod)
  then have "(sint m mod 2 ^ 64) mod 2 ^ 32 = 2 ^ 32 - 1"
    by (simp add: uint_sint take_bit_eq_mod)
  then have s: "sint m mod 2 ^ 32 = 2 ^ 32 - 1"
    by (simp add: mod_mod_cancel)
  have d: "sint m = - 1 \<or> sint m = 2 ^ 32 - 1"
  proof (cases "0 \<le> sint m")
    case True
    with assms have "sint m mod 2 ^ 32 = sint m" by simp
    with s show ?thesis by simp
  next
    case False
    with assms have "0 \<le> sint m + 2 ^ 32" and "sint m + 2 ^ 32 < 2 ^ 32" by simp_all
    then have "(sint m + 2 ^ 32) mod 2 ^ 32 = sint m + 2 ^ 32" by (rule mod_pos_pos_trivial)
    moreover have "(sint m + 2 ^ 32) mod 2 ^ 32 = sint m mod 2 ^ 32" by simp
    ultimately have "sint m mod 2 ^ 32 = sint m + 2 ^ 32" by (simp only:)
    with s show ?thesis by simp
  qed
  have "m = word_of_int (sint m)" by simp
  with d have "m = word_of_int (- 1) \<or> m = word_of_int (2 ^ 32 - 1)" by metis
  then show "m = - 1 \<or> m = 0xFFFFFFFF" by simp
qed

text \<open>
  C5. \<open>HasPermission m r\<close> is true exactly when \<open>m\<close> is the admin sentinel or
  \<open>m AND r\<close> is nonzero; it is true for \<open>-1\<close> and for the admin mask, whatever \<open>r\<close>
  is; and with the admin mask at \<open>0xFFFFFFFF\<close>, a mask that fits 32 bits (read signed or
  unsigned) is the sentinel exactly when it is \<open>-1\<close> or \<open>0xFFFFFFFF\<close>, the two
  representations of "all bits set".
\<close>

theorem HasPermission_sentinel_or_overlap:
  "(HasPermission p m r \<longleftrightarrow> admin_sentinel p m \<or> m AND r \<noteq> 0)
   \<and> HasPermission p (- 1) r
   \<and> HasPermission p (PermissionAdmin p) r
   \<and> (PermissionAdmin p = 0xFFFFFFFF \<and> - (2 ^ 31) \<le> sint m \<and> sint m < 2 ^ 32
        \<longrightarrow> (admin_sentinel p m \<longleftrightarrow> m = - 1 \<or> m = 0xFFFFFFFF))"
proof -
  have "HasPermission p m r \<longleftrightarrow> admin_sentinel p m \<or> m AND r \<noteq> 0"
    by (auto simp add: HasPermission_def admin_sentinel_def)
  moreover have "HasPermission p (- 1) r" and "HasPermission p (PermissionAdmin p) r"
    by (simp_all add: HasPermission_def)
  moreover have "admin_sentinel p m \<longleftrightarrow> m = - 1 \<or> m = 0xFFFFFFFF"
    if "PermissionAdmin p = 0xFFFFFFFF" and "- (2 ^ 31) \<le> sint m" and "sint m < 2 ^ 32"
    using that low_word_all_ones [of m] by (auto simp add: admin_sentinel_def)
  ultimately show ?thesis by blast
qed

theorem HasPermission_sentinel_or_overlap_witness:
  "PermissionAdmin configured_masks = 0xFFFFFFFF
   \<and> - (2 ^ 31) \<le> sint (3 :: go_int) \<and> sint (3 :: go_int) < 2 ^ 32
   \<and> \<not> admin_sentinel configured_masks 3
   \<and> HasPermission configured_masks 3 PermissionViewReports
   \<and> \<not> HasPermission configured_masks 3 PermissionEditReports
   \<and> HasPermission configured_masks (- 1) PermissionEditReports
   \<and> HasPermission configured_masks 0xFFFFFFFF PermissionEditReports"
  using HasPermission_sentinel_or_overlap [of configured_masks 3 PermissionViewReports]
    HasPermission_sentinel_or_overlap [of configured_masks 3 PermissionEditReports]
  by (simp add: configured_masks_def SetPermissionMasks_def permission_bit_defs)

text \<open>
  C4, as stated, fails: \<open>HasAllPermissions\<close> accepts a required value as soon as the mask
  shares one bit with it. The mask \<open>1\<close> (view reports) passes the required value \<open>3\<close>
  (view and add reports) although bit 1 is not set in it and it is not the sentinel.
\<close>

theorem HasAllPermissions_multi_bit_counterexample:
  "HasAllPermissions configured_masks 1 [3]
   \<and> \<not> every_bit_set 1 [3]
   \<and> \<not> admin_sentinel configured_masks 1"
  by (simp add: HasAllPermissions_def every_bit_set_def admin_sentinel_def
      configured_masks_def SetPermissionMasks_def)

lemma all_required_shares_a_bit: "all_required m S = shares_a_bit_with_each m S"
  by (induction S) (simp_all add: shares_a_bit_with_each_def)

text \<open>
  C4, amended. \<open>HasAllPermissions m S\<close> is true exactly when \<open>m\<close> is the admin
  sentinel or \<open>m\<close> shares at least one bit with every required value of \<open>S\<close>. When
  every required value is a single permission bit, this is the same as: every bit of
  \<open>S\<close> is set in \<open>m\<close>, or \<open>m\<close> is the admin sentinel.
\<close>

theorem HasAllPermissions_shares_a_bit:
  "(HasAllPermissions p m S \<longleftrightarrow> admin_sentinel p m \<or> shares_a_bit_with_each m S)
   \<and> (list_all single_bit S \<longrightarrow>
        (HasAllPermissions p m S \<longleftrightarrow> every_bit_set m S \<or> admin_sentinel p m))"
proof -
  have general: "HasAllPermissions p m S \<longleftrightarrow> admin_sentinel p m \<or> shares_a_bit_with_each m S"
    by (auto simp add: HasAllPermissions_def admin_sentinel_def all_required_shares_a_bit)
  have "HasAllPermissions p m S \<longleftrightarrow> every_bit_set m S \<or> admin_sentinel p m"
    if "list_all single_bit S"
    using all_required_single_bits [OF that, of m]
    by (auto simp add: HasAllPermissions_def admin_sentinel_def)
  with general show ?thesis by blast
qed

theorem HasAllPermissions_shares_a_bit_witness:
  "list_all single_bit [PermissionViewReports, PermissionEditReports]
   \<and> HasAllPermissions configured_masks 5 [PermissionViewReports, PermissionEditReports]
   \<and> \<not> HasAllPermissions configured_masks 3 [PermissionViewReports, PermissionEditReports]
   \<and> shares_a_bit_with_each 0x11 [PermissionDriver configured_masks, PermissionMechanic configured_masks]
   \<and> \<not> every_bit_set 0x11 [PermissionDriver configured_masks, PermissionMechanic configured_masks]
   \<and> HasAllPermissions configured_masks 0x11
         [PermissionDriver configured_masks, PermissionMechanic configured_masks]
   \<and> \<not> HasAllPermissions configured_masks 0x10
         [PermissionDriver configured_masks, PermissionMechanic configured_masks]"
proof -
  have h: "list_all single_bit [PermissionViewReports, PermissionEditReports]"
    by (simp add: single_bit_def permission_bit_defs upt_rec)
  show ?thesis
    using h HasAllPermissions_shares_a_bit [of configured_masks 5 "[PermissionViewReports, PermissionEditReports]"]
      HasAllPermissions_shares_a_bit [of configured_masks 3 "[PermissionViewReports, PermissionEditReports]"]
      HasAllPermissions_shares_a_bit [of configured_masks "0x11"
        "[PermissionDriver configured_masks, PermissionMechanic configured_masks]"]
      HasAllPermissions_shares_a_bit [of configured_masks "0x10"
        "[PermissionDriver configured_masks, PermissionMechanic configured_masks]"]
    by (simp add: every_bit_set_def shares_a_bit_with_each_def admin_sentinel_def configured_masks_def
        SetPermissionMasks_def permission_bit_defs)
qed

section \<open>Facts about the repository\<close>




text \<open>Overwriting the rows of one key, as \<open>Save\<close> does, and reading a key back.\<close>

lemma find_replace_same:
  assumes "key r' = i" and "\<not> del r'"
  shows "find (\<lambda>x. key x = i \<and> \<not> del x) (map (\<lambda>x. if key x = i then r' else x) xs)
         = (if \<exists>x\<in>set xs. key x = i then Some r' else None)"
  using assms by (induction xs) auto

lemma find_key_SomeD:
  "find (\<lambda>x. key x = i \<and> \<not> del x) xs = Some r \<Longrightarrow> key r = i \<and> \<not> del r \<and> r \<in> set xs"
  by (auto simp add: find_Some_iff)


lemma find_append_old:
  assumes "find (\<lambda>x. key x = i \<and> \<not> del x) xs = Some r"
  shows "find (\<lambda>x. key x = i \<and> \<not> del x) (xs @ ys) = Some r"
  using assms by (induction xs) (auto split: if_splits)

lemma map_key_replace:
  assumes "key r' = i"
  shows "map key (map (\<lambda>x. if key x = i then r' else x) xs) = map key xs"
  using assms by (induction xs) auto

lemma GetReportByID_SomeD:
  "GetReportByID st i = Some r \<Longrightarrow> wr_ID r = i \<and> \<not> wr_Deleted r \<and> r \<in> set (reports st)"
  unfolding GetReportByID_def by (rule find_key_SomeD)



text \<open>The two outcomes of each \<open>Save\<close>.\<close>

lemma UpdateReport_outcome:
  "UpdateReport st r = (st, Some DatabaseError)
   \<or> (\<exists>row. wr_ID r \<noteq> 0 \<and> report_fks st r \<and> report_columns r = Some row
         \<and> UpdateReport st r
           = (st\<lparr>reports := map (\<lambda>x. if wr_ID x = wr_ID r then row else x) (reports st)\<rparr>, None))"
  by (simp add: UpdateReport_def split: option.splits)

lemma UpdateReport_stored:
  assumes "wr_ID r \<noteq> 0" and "report_fks st r" and "report_columns r = Some row"
  shows "UpdateReport st r
         = (st\<lparr>reports := map (\<lambda>x. if wr_ID x = wr_ID r then row else x) (reports st)\<rparr>, None)"
  using assms by (simp add: UpdateReport_def)


lemma UpdateExpense_outcome:
  "UpdateExpense st e = (st, Some DatabaseError)
   \<or> (\<exists>row. expense_fks st e \<and> expense_columns e = Some row
         \<and> UpdateExpense st e
           = (st\<lparr>expenses := map (\<lambda>x. if ex_ID x = ex_ID e then row else x) (expenses st)\<rparr>, None))"
  by (simp add: UpdateExpense_def split: option.splits)

lemma UpdateDeposit_outcome:
  "UpdateDeposit st d = (st, Some DatabaseError)
   \<or> (\<exists>row. deposit_fks st d \<and> deposit_columns d = Some row
         \<and> UpdateDeposit st d
           = (st\<lparr>deposits := map (\<lambda>x. if bd_ID x = bd_ID d then row else x) (deposits st)\<rparr>, None))"
  by (simp add: UpdateDeposit_def split: option.splits)

lemma GetReportByID_replaced:
  assumes "GetReportByID st i = Some r" and "wr_ID row = i" and "\<not> wr_Deleted row"
  shows "GetReportByID (st\<lparr>reports := map (\<lambda>x. if wr_ID x = i then row else x) (reports st)\<rparr>) i
         = Some row"
proof -
  from GetReportByID_SomeD [OF assms(1)] have "\<exists>x\<in>set (reports st). wr_ID x = i" by blast
  then show ?thesis
    using find_replace_same [of wr_ID row i wr_Deleted "reports st"] assms(2,3)
    by (simp add: GetReportByID_def)
qed



text \<open>What a write to the reports leaves as it is.\<close>

lemma UpdateReport_frame [simp]:
  "expenses (fst (UpdateReport st r)) = expenses st"
  "tenants (fst (UpdateReport st r)) = tenants st"
  "taxis (fst (UpdateReport st r)) = taxis st"
  "users (fst (UpdateReport st r)) = users st"
  "map wr_ID (reports (fst (UpdateReport st r))) = map wr_ID (reports st)"
proof -
  show "expenses (fst (UpdateReport st r)) = expenses st"
    "tenants (fst (UpdateReport st r)) = tenants st"
    "taxis (fst (UpdateReport st r)) = taxis st"
    "users (fst (UpdateReport st r)) = users st"
    by (simp_all add: UpdateReport_def split: option.splits)
  show "map wr_ID (reports (fst (UpdateReport st r))) = map wr_ID (reports st)"
    using UpdateReport_outcome [of st r]
    by (auto simp add: map_key_replace report_columns_SomeD)
qed

lemma recalculate_total_frame [simp]:
  "expenses (recalculate_total st r) = expenses st"
  "tenants (recalculate_total st r) = tenants st"
  "taxis (recalculate_total st r) = taxis st"
  "users (recalculate_total st r) = users st"
  "map wr_ID (reports (recalculate_total st r)) = map wr_ID (reports st)"
  by (simp_all add: recalculate_total_def)

lemma GetExpenseByID_recalculate_total [simp]:
  "GetExpenseByID (recalculate_total st r) i = GetExpenseByID st i"
  by (simp add: GetExpenseByID_def)

lemma recalculate_zero_report [simp]: "recalculate_total st zero_report = st"
  by (simp add: recalculate_total_def UpdateReport_def zero_report_def)

lemma update_report_total_frame [simp]:
  "expenses (update_report_total st k) = expenses st"
  "tenants (update_report_total st k) = tenants st"
  "taxis (update_report_total st k) = taxis st"
  "users (update_report_total st k) = users st"
  "map wr_ID (reports (update_report_total st k)) = map wr_ID (reports st)"
  by (simp_all add: update_report_total_def split: option.splits)

lemma GetExpenseByID_update_report_total [simp]:
  "GetExpenseByID (update_report_total st k) i = GetExpenseByID st i"
  by (simp add: GetExpenseByID_def)



lemmas decimal_10_2_eval = decimal_10_2_def round_half_away_def

section \<open>Approving and deleting a report\<close>

text \<open>
  The test that guards \<open>Approve\<close> and \<open>Delete\<close>, and what \<open>Delete\<close> does for a
  report of the caller's tenant according to it. The test is true for the admin sentinel
  and for every mask that shares a bit with the owner mask or with the admin mask.
\<close>

lemma HasAnyPermission_owner_admin_iff:
  "HasAnyPermission p m [PermissionOwner p, PermissionAdmin p]
     \<longleftrightarrow> admin_sentinel p m \<or> m AND PermissionOwner p \<noteq> 0 \<or> m AND PermissionAdmin p \<noteq> 0"
  by (auto simp add: HasAnyPermission_def admin_sentinel_def)

text \<open>
  What \<open>Approve\<close> does for a report of the caller's tenant: the write succeeds when
  the row and the approving user satisfy the schema.
\<close>

lemma ReportService_Approve_outcomes:
  assumes "GetReportByID st i = Some r" and "wr_TenantID r = tenantID"
  shows "\<not> HasAnyPermission p permission [PermissionOwner p, PermissionAdmin p] \<Longrightarrow>
           ReportService_Approve p now st i tenantID approvedByID permission = (st, Inl OnlyOwnerOrAdmin)"
    and "HasAnyPermission p permission [PermissionOwner p, PermissionAdmin p] \<Longrightarrow>
           wr_Status r \<noteq> ''submitted'' \<Longrightarrow>
           ReportService_Approve p now st i tenantID approvedByID permission
             = (st, Inl MustBeSubmittedBeforeApproval)"
    and "HasAnyPermission p permission [PermissionOwner p, PermissionAdmin p] \<Longrightarrow>
           wr_Status r = ''submitted'' \<Longrightarrow>
           0 < i \<Longrightarrow> report_fks st r \<Longrightarrow> report_columns r = Some r \<Longrightarrow>
           user_exists st approvedByID \<Longrightarrow>
           snd (ReportService_Approve p now st i tenantID approvedByID permission)
             = Inr (r\<lparr>wr_Status := ''approved'', wr_ApprovedAt := Some now,
                      wr_ApprovedByID := Some approvedByID\<rparr>)
           \<and> GetReportByID (fst (ReportService_Approve p now st i tenantID approvedByID permission)) i
             = Some (r\<lparr>wr_Status := ''approved'', wr_ApprovedAt := Some now,
                      wr_ApprovedByID := Some approvedByID\<rparr>)"
proof -
  let ?r' = "r\<lparr>wr_Status := ''approved'', wr_ApprovedAt := Some now,
                      wr_ApprovedByID := Some approvedByID\<rparr>"
  from GetReportByID_SomeD [OF assms(1)] have idr: "wr_ID r = i" "\<not> wr_Deleted r" by simp_all
  show "\<not> HasAnyPermission p permission [PermissionOwner p, PermissionAdmin p] \<Longrightarrow>
           ReportService_Approve p now st i tenantID approvedByID permission = (st, Inl OnlyOwnerOrAdmin)"
    by (simp add: ReportService_Approve_def)
  show "HasAnyPermission p permission [PermissionOwner p, PermissionAdmin p] \<Longrightarrow>
           wr_Status r \<noteq> ''submitted'' \<Longrightarrow>
           ReportService_Approve p now st i tenantID approvedByID permission
             = (st, Inl MustBeSubmittedBeforeApproval)"
    using assms by (simp add: ReportService_Approve_def)
  show "snd (ReportService_Approve p now st i tenantID approvedByID permission) = Inr ?r'
           \<and> GetReportByID (fst (ReportService_Approve p now st i tenantID approvedByID permission)) i
             = Some ?r'"
    if "HasAnyPermission p permission [PermissionOwner p, PermissionAdmin p]"
      and "wr_Status r = ''submitted''" and "0 < i" and "report_fks st r"
      and "report_columns r = Some r" and "user_exists st approvedByID"
  proof -
    have fk: "report_fks st ?r'"
      using that(4,6) by (simp add: report_fks_def nullable_def)
    have col: "report_columns ?r' = Some ?r'"
      using that(5) by (simp add: report_columns_fixed_iff varchar_def)
    have "UpdateReport st ?r'
          = (st\<lparr>reports := map (\<lambda>x. if wr_ID x = i then ?r' else x) (reports st)\<rparr>, None)"
      using UpdateReport_stored [OF _ fk col] idr that(3) by simp
    moreover have "GetReportByID (st\<lparr>reports := map (\<lambda>x. if wr_ID x = i then ?r' else x) (reports st)\<rparr>) i
          = Some ?r'"
      using idr by (intro GetReportByID_replaced [OF assms(1)]) simp_all
    ultimately show ?thesis
      using assms that(1,2) idr
      by (simp add: ReportService_Approve_def Let_def first_or_error_def)
  qed
qed

lemma ReportService_Delete_outcomes:
  assumes "GetReportByID st i = Some r" and "wr_TenantID r = tenantID"
  shows "HasAnyPermission p permission [PermissionOwner p, PermissionAdmin p] \<Longrightarrow>
           ReportService_Delete p st i tenantID driverID permission = (DeleteReport st i, None)"
    and "\<not> HasAnyPermission p permission [PermissionOwner p, PermissionAdmin p] \<Longrightarrow>
           permission \<noteq> PermissionDriver p \<Longrightarrow>
           ReportService_Delete p st i tenantID driverID permission = (st, Some Unauthorized)"
    and "\<not> HasAnyPermission p permission [PermissionOwner p, PermissionAdmin p] \<Longrightarrow>
           permission = PermissionDriver p \<Longrightarrow>
           ReportService_Delete p st i tenantID driverID permission
             = (if wr_DriverID r \<noteq> driverID then (st, Some Unauthorized)
                else if wr_Status r \<noteq> ''draft'' then (st, Some CanOnlyDeleteDraft)
                else (DeleteReport st i, None))"
  using assms by (simp_all add: ReportService_Delete_def)

lemma GetReportByID_DeleteReport: "GetReportByID (DeleteReport st i) i = None"
proof -
  have "find (\<lambda>r. wr_ID r = i \<and> \<not> wr_Deleted r)
          (map (\<lambda>x. if wr_ID x = i then x\<lparr>wr_Deleted := True\<rparr> else x) xs) = None" for xs
    by (induction xs) auto
  then show ?thesis by (simp add: GetReportByID_def DeleteReport_def)
qed

text \<open>
  C1. The claim requires \<open>Approve\<close> to refuse a caller whose mask is the plain driver
  mask. The code evaluated at that input: with the configured masks the driver mask is 3,
  report 1 of tenant 1 is submitted, and \<open>Approve\<close> called by user 8 of tenant 1 with
  mask 3 approves it and stamps \<open>approved_at\<close> and \<open>approved_by\<close>. The test
  \<open>HasAnyPermission(permission, PermissionOwner, PermissionAdmin)\<close> passes as soon as the
  mask shares one bit with the owner mask. The same happens with the initial masks of the
  package.
\<close>

theorem Approve_by_plain_driver_succeeds:
  "PermissionDriver configured_masks = 3
   \<and> GetReportByID example_store 1 = Some example_report
   \<and> wr_Status example_report = ''submitted''
   \<and> snd (ReportService_Approve configured_masks 2000 example_store 1 1 8 3)
       = Inr (example_report\<lparr>wr_Status := ''approved'', wr_ApprovedAt := Some 2000,
                            wr_ApprovedByID := Some 8\<rparr>)
   \<and> snd (ReportService_Approve initial_masks 2000 example_store 1 1 8
             (PermissionDriver initial_masks))
       = Inr (example_report\<lparr>wr_Status := ''approved'', wr_ApprovedAt := Some 2000,
                            wr_ApprovedByID := Some 8\<rparr>)"
  by (simp add: ReportService_Approve_def HasAnyPermission_def mask_defs
      GetReportByID_def example_defs UpdateReport_def first_or_error_def Let_def
      schema_defs decimal_10_2_eval)

text \<open>
  C2. The claim lets a plain driver delete only their own draft report. The code
  evaluated at a driver mask: report 1 belongs to driver 7 and is approved, and \<open>Delete\<close>
  called by user 8 of the same tenant with mask 3 deletes it. The owner-or-admin test
  passes for the driver mask, so the driver branch below it is never reached; the
  mechanic mask passes it as well.
\<close>

theorem Delete_by_plain_driver_succeeds:
  "PermissionDriver configured_masks = 3
   \<and> GetReportByID approved_store 1 = Some (example_report\<lparr>wr_Status := ''approved''\<rparr>)
   \<and> wr_DriverID example_report = 7
   \<and> snd (ReportService_Delete configured_masks approved_store 1 1 8 3) = None
   \<and> GetReportByID (fst (ReportService_Delete configured_masks approved_store 1 1 8 3)) 1 = None
   \<and> snd (ReportService_Delete initial_masks approved_store 1 1 8
             (PermissionDriver initial_masks)) = None
   \<and> snd (ReportService_Delete configured_masks approved_store 1 1 8
             (PermissionMechanic configured_masks)) = None"
  by (simp add: ReportService_Delete_def HasAnyPermission_def mask_defs
      GetReportByID_def example_defs DeleteReport_def Let_def)

section \<open>Tenant isolation\<close>

text \<open>
  C7. When a report, an expense or a deposit exists and belongs to another tenant than
  the caller's, \<open>GetByID\<close>, \<open>Update\<close> and \<open>Delete\<close> of its service fail with the
  not-found error of that entity, and the database is unchanged.
\<close>

theorem cross_tenant_access_not_found:
  "(GetReportByID st i = Some r \<and> wr_TenantID r \<noteq> tenantID \<longrightarrow>
      ReportService_GetByID st i tenantID = Inl ReportNotFound
      \<and> ReportService_Update p st i tenantID driverID permission rreq = (st, Inl ReportNotFound)
      \<and> ReportService_Delete p st i tenantID driverID permission = (st, Some ReportNotFound))
   \<and> (GetExpenseByID st i = Some e \<and> ex_TenantID e \<noteq> tenantID \<longrightarrow>
      ExpenseService_GetByID st i tenantID = Inl ExpenseNotFound
      \<and> ExpenseService_Update parse st i tenantID ereq = (st, Inl ExpenseNotFound)
      \<and> ExpenseService_Delete st i tenantID = (st, Some ExpenseNotFound))
   \<and> (GetDepositByID st i = Some d \<and> bd_TenantID d \<noteq> tenantID \<longrightarrow>
      DepositService_GetByID st i tenantID = Inl DepositNotFound
      \<and> DepositService_Update parse st i tenantID dreq = (st, Inl DepositNotFound)
      \<and> DepositService_Delete st i tenantID = (st, Some DepositNotFound))"
  by (simp add: ReportService_GetByID_def ReportService_Update_def ReportService_Delete_def
      ExpenseService_GetByID_def ExpenseService_Update_def ExpenseService_Delete_def
      DepositService_GetByID_def DepositService_Update_def DepositService_Delete_def)

theorem cross_tenant_access_not_found_witness:
  "GetReportByID example_store 1 = Some example_report \<and> wr_TenantID example_report \<noteq> 2
   \<and> GetExpenseByID example_store 1 = Some example_expense \<and> ex_TenantID example_expense \<noteq> 2
   \<and> GetDepositByID example_store 1 = Some example_deposit \<and> bd_TenantID example_deposit \<noteq> 2
   \<and> ReportService_GetByID example_store 1 2 = Inl ReportNotFound
   \<and> ReportService_Delete configured_masks example_store 1 2 9 0xFFFFF = (example_store, Some ReportNotFound)
   \<and> ExpenseService_Delete example_store 1 2 = (example_store, Some ExpenseNotFound)
   \<and> DepositService_Delete example_store 1 2 = (example_store, Some DepositNotFound)
   \<and> message ReportNotFound = ''report not found''"
proof -
  have h: "GetReportByID example_store 1 = Some example_report" "wr_TenantID example_report \<noteq> 2"
   "GetExpenseByID example_store 1 = Some example_expense" "ex_TenantID example_expense \<noteq> 2"
   "GetDepositByID example_store 1 = Some example_deposit" "bd_TenantID example_deposit \<noteq> 2"
    by (simp_all add: example_defs example_expense_def example_deposit_def repo_defs)
  with cross_tenant_access_not_found [of example_store 1 example_report 2 configured_masks 9 "0xFFFFF" _
      example_expense _ _ example_deposit]
  show ?thesis by simp
qed

section \<open>Refreshing an access token\<close>

text \<open>
  C8, as stated, fails. After \<open>AdminService.DeleteUser\<close> has deleted user 7, the
  session of the token \<open>refresh\<close> is still there and expires at 9000; at time 2000
  \<open>RefreshToken\<close> finds it, does not find its user, and fails with \<open>user not found\<close>
  instead of returning an access token.
\<close>

theorem RefreshToken_deleted_user_counterexample:
  "GetSessionByToken 2000 (AdminService_DeleteUser example_store 7) ''refresh''
     = Some \<lparr> se_ID = 1, se_UserID = 7, se_Token = ''refresh'', se_ExpiresAt = 9000,
              se_Deleted = False \<rparr>
   \<and> (2000::int) < 9000
   \<and> AuthService_RefreshToken example_sign example_jwt 2000
        (AdminService_DeleteUser example_store 7) ''refresh''
       = (AdminService_DeleteUser example_store 7, Inl UserNotFound)"
  by (simp add: example_defs repo_defs service_defs)

lemma GetSessionByToken_None_iff:
  "GetSessionByToken now st token = None \<longleftrightarrow> \<not> list_ex (unexpired_session now token) (sessions st)"
  by (auto simp add: GetSessionByToken_def find_None_iff unexpired_session_def list_ex_iff)

lemma GetSessionByToken_SomeD:
  "GetSessionByToken now st token = Some s \<Longrightarrow> unexpired_session now token s \<and> s \<in> set (sessions st)"
  by (auto simp add: GetSessionByToken_def find_Some_iff unexpired_session_def)

text \<open>
  C8, amended. \<open>RefreshToken\<close> never changes the store. When no session row has the
  token, is unexpired and not deleted, it fails with \<open>invalid refresh token\<close>. When there
  is one, the first such row decides: if its user no longer exists the call fails with
  \<open>user not found\<close>, and otherwise it returns the access token signed for that user,
  issued now and expiring after the configured lifetime.
\<close>

theorem RefreshToken_outcomes:
  fixes sign cfg now st token
  defines "res \<equiv> AuthService_RefreshToken sign cfg now st token"
  shows "fst res = st
   \<and> (\<not> list_ex (unexpired_session now token) (sessions st) \<longrightarrow> snd res = Inl InvalidRefreshToken)
   \<and> (list_ex (unexpired_session now token) (sessions st) \<longrightarrow>
        (\<exists>s. GetSessionByToken now st token = Some s \<and> unexpired_session now token s
           \<and> (GetUserByID st (se_UserID s) = None \<longrightarrow> snd res = Inl UserNotFound)
           \<and> (\<forall>u. GetUserByID st (se_UserID s) = Some u \<longrightarrow>
                 snd res = Inr (sign \<lparr> jc_user_id = us_ID u, jc_email = Some (us_Email u),
                                       jc_permission = us_Permission u, jc_iat = now,
                                       jc_exp = now + Expiration cfg \<rparr>))))"
proof -
  have 1: "fst res = st"
    by (simp add: res_def AuthService_RefreshToken_def split: option.splits)
  have 2: "snd res = Inl InvalidRefreshToken"
    if "\<not> list_ex (unexpired_session now token) (sessions st)"
    using that GetSessionByToken_None_iff [of now st token]
    by (simp add: res_def AuthService_RefreshToken_def)
  have 3: "\<exists>s. GetSessionByToken now st token = Some s \<and> unexpired_session now token s
           \<and> (GetUserByID st (se_UserID s) = None \<longrightarrow> snd res = Inl UserNotFound)
           \<and> (\<forall>u. GetUserByID st (se_UserID s) = Some u \<longrightarrow>
                 snd res = Inr (sign \<lparr> jc_user_id = us_ID u, jc_email = Some (us_Email u),
                                       jc_permission = us_Permission u, jc_iat = now,
                                       jc_exp = now + Expiration cfg \<rparr>))"
    if "list_ex (unexpired_session now token) (sessions st)"
  proof -
    from that obtain s where s: "GetSessionByToken now st token = Some s"
      using GetSessionByToken_None_iff [of now st token] by auto
    with GetSessionByToken_SomeD [OF s] show ?thesis
      by (simp add: res_def AuthService_RefreshToken_def generateTokens_def)
  qed
  from 1 2 3 show ?thesis by blast
qed

theorem RefreshToken_outcomes_witness:
  "list_ex (unexpired_session 2000 ''refresh'') (sessions example_store)
   \<and> \<not> list_ex (unexpired_session 9500 ''refresh'') (sessions example_store)
   \<and> \<not> list_ex (unexpired_session 2000 ''other'') (sessions example_store)
   \<and> AuthService_RefreshToken example_sign example_jwt 2000 example_store ''refresh''
       = (example_store, Inr ''access-token'')
   \<and> AuthService_RefreshToken example_sign example_jwt 9500 example_store ''refresh''
       = (example_store, Inl InvalidRefreshToken)
   \<and> AuthService_RefreshToken example_sign example_jwt 2000 example_store ''other''
       = (example_store, Inl InvalidRefreshToken)"
  using RefreshToken_outcomes [of example_sign example_jwt 2000 example_store "''refresh''"]
    RefreshToken_outcomes [of example_sign example_jwt 9500 example_store "''refresh''"]
    RefreshToken_outcomes [of example_sign example_jwt 2000 example_store "''other''"]
  by (simp add: example_defs repo_defs service_defs unexpired_session_def example_sign_def
      example_jwt_def)

section \<open>The outcomes of the update operations\<close>












section \<open>Zero values in update requests\<close>







section \<open>Updating a report\<close>






section \<open>An expense for a report of another tenant\<close>


lemma CreateExpense_outcome:
  "CreateExpense new_id st e = Inl DatabaseError
     \<and> (expense_exists st new_id \<or> \<not> expense_fks st e \<or> expense_columns e = None)
   \<or> (\<exists>row. \<not> expense_exists st new_id \<and> expense_fks st e \<and> expense_columns e = Some row
         \<and> CreateExpense new_id st e
           = Inr (st\<lparr>expenses := expenses st @ [row\<lparr>ex_ID := new_id\<rparr>]\<rparr>, e\<lparr>ex_ID := new_id\<rparr>))"
  by (auto simp add: CreateExpense_def split: option.splits)









section \<open>Report totals\<close>

subsection \<open>The schema is kept\<close>













subsection \<open>Storing a report and recalculating a total\<close>


lemma totals_consistentI:
  "(\<And>r. r \<in> set (reports st) \<Longrightarrow> report_total_matches (expenses st) r) \<Longrightarrow> totals_consistent st"
  by (simp add: totals_consistent_def list_all_iff)















subsection \<open>The report service keeps the totals\<close>









subsection \<open>The expense service keeps the totals\<close>






subsection \<open>Creating and deleting one expense\<close>




text \<open>
  The totals also go stale when the column does not take the new sum. Report 1 has one
  expense of 60,000,000 and that total. Its own tenant creates a second expense of
  60,000,000 linked to it: the insert succeeds, the write of the new total 120,000,000
  is rejected by the column, its error is dropped, and the total stays 60,000,000.
\<close>

lemma unfitting_total_left_stale:
  "totals_consistent loaded_store \<and> schema_holds loaded_store
   \<and> \<not> links_foreign_report loaded_store (ExpenseCreate 2 1 7 large_request)
   \<and> (\<exists>e. snd (ExpenseService_Create example_parse 3000 2 loaded_store 1 7 large_request) = Inr e
         \<and> ex_ReportID e = Some 1 \<and> ex_Amount e = 60000000)
   \<and> GetReportByID (fst (ExpenseService_Create example_parse 3000 2 loaded_store 1 7 large_request)) 1
       = Some (example_report\<lparr>wr_TotalExpenses := 60000000\<rparr>)
   \<and> linked_sum (expenses (fst (ExpenseService_Create example_parse 3000 2 loaded_store 1 7
         large_request))) 1 = 120000000
   \<and> \<not> totals_fit (fst (ExpenseService_Create example_parse 3000 2 loaded_store 1 7 large_request))
   \<and> \<not> totals_consistent
         (fst (ExpenseService_Create example_parse 3000 2 loaded_store 1 7 large_request))"
  by (simp add: invariant_defs example_defs repo_defs service_defs schema_defs decimal_10_2_eval)



end
